theory Spec2Isabelle
  imports Complex_Main
begin

section \<open>Python values, exceptions and formatted lines\<close>

text \<open>
  The exporter is Python. Its floats are idealised as \<open>real\<close> numbers (no rounding, no
  infinities); its integers are \<open>int\<close>. An exception is a value: every operation that can
  raise returns \<open>exn + 'a\<close>, with \<open>Inl\<close> for the exception.
  \<open>RuntimeError\<close> stands for a failure raised by the host's scripting interface; its
  payload is the host's message.
\<close>

datatype exn = ZeroDivisionError | ValueError | RuntimeError string

text \<open>Python's \<open>x / y\<close> on floats: raises ZeroDivisionError when the divisor is zero.\<close>

definition py_div :: "real \<Rightarrow> real \<Rightarrow> exn + real" where
  "py_div a b = (if b = 0 then Inl ZeroDivisionError else Inr (a / b))"

text \<open>\<open>math.sqrt\<close>: raises ValueError (math domain error) on a negative argument.\<close>

definition math_sqrt :: "real \<Rightarrow> exn + real" where
  "math_sqrt a = (if a < 0 then Inl ValueError else Inr (sqrt a))"

text \<open>\<open>math.degrees\<close>: radians to degrees.\<close>

definition math_degrees :: "real \<Rightarrow> real" where
  "math_degrees a = a * (180 / pi)"

text \<open>
  A line handed to the output buffer is the Python expression \<open>fmt % args\<close>, kept as the
  format string with its arguments (a plain literal has no arguments). The rendering of
  \<open>%f\<close> is Python's and is not computed here.
\<close>

datatype pyval = PyFloat real | PyStr string

datatype line = Fmt string "pyval list"

definition TAB :: char where
  "TAB = CHR 0x09"

definition DQ :: char where
  "DQ = CHR 0x22"

section \<open>The host: camera function set, settings node, global up axis\<close>

text \<open>
  \<open>OpenMaya.MPoint\<close> and \<open>OpenMaya.MVector\<close>: the exporter reads only the components
  \<open>x\<close>, \<open>y\<close>, \<open>z\<close>.
\<close>

datatype MVector = MVector (vec_x: real) (vec_y: real) (vec_z: real)

text \<open>\<open>OpenMaya.MMatrix\<close>: four rows of four entries; the translation is the last row.\<close>

type_synonym MMatrix = "real list list"

text \<open>
  What one export call reads from the host. The values of \<open>OpenMaya.MFnCamera\<close> and of
  the node \<open>lux_settings\<close> are fields; the three world-space queries that the exporter
  guards with \<open>try\<close> may fail. \<open>intToBoolString\<close> is inherited from the base class
  \<open>ExportModule\<close>, whose text is not part of the module; it is taken as a parameter.
  \<open>upAxisRemap\<close> is the fixed basis change the base class applies for a Y-up scene.
\<close>

record host =
  isOrtho :: bool
  focalLength :: real
  fStop :: real
  filmTranslateH :: real
  filmTranslateV :: real
  orthoWidth :: real
  horizontalFieldOfView :: real
  verticalFieldOfView :: real
  horizontalFilmAperture :: real
  verticalFilmAperture :: real
  centerOfInterest :: real
  eyePoint :: "exn + MVector"
  upDirection :: "exn + MVector"
  centerOfInterestPoint :: "exn + MVector"
  camera_persptype :: string
  camera_infinite_focus :: int
  camera_exposuretime :: real
  camera_autofocus :: int
  isYAxisUp :: bool
  upAxisRemap :: "MMatrix \<Rightarrow> MMatrix"
  intToBoolString :: "int \<Rightarrow> string"
  getSceneScaleFactor :: real

section \<open>The Camera export module\<close>

text \<open>
  The object \<open>self\<close>. \<open>moduleOutput\<close> is the output buffer of the base class, an ordered
  sequence of lines.
\<close>

record Camera =
  outWidth :: int
  outHeight :: int
  scale :: real
  sceneScale :: real
  DOF_CONST :: int
  moduleOutput :: "line list"

text \<open>
  \<open>__init__\<close>. The buffer the base class starts with is passed in.
\<close>

definition Camera_init :: "host \<Rightarrow> int \<Rightarrow> int \<Rightarrow> line list \<Rightarrow> Camera" where
  "Camera_init h width height buf =
     \<lparr> outWidth = width, outHeight = height, scale = 1, sceneScale = getSceneScaleFactor h,
       DOF_CONST = 1000, moduleOutput = buf \<rparr>"

text \<open>
  Modelled from the spec: \<open>ExportModule.addToOutput\<close>, which is not in the module's file.
  The spec: the output buffer is an ordered sequence of text lines, and this module only
  appends.
\<close>

definition addToOutput :: "line \<Rightarrow> Camera \<Rightarrow> Camera" where
  "addToOutput l s = s\<lparr>moduleOutput := moduleOutput s @ [l]\<rparr>"

text \<open>
  Modelled from the spec: \<open>ExportModule.checkUpAxis\<close>, which is not in the module's file.
  The spec: a fixed basis-remapping transform is applied when the host's up axis (Y) and
  the renderer's (Z) differ; nothing is done when they already match.
\<close>

definition checkUpAxis :: "host \<Rightarrow> MMatrix \<Rightarrow> MMatrix" where
  "checkUpAxis h m = (if isYAxisUp h then upAxisRemap h m else m)"

text \<open>
  \<open>MTransformationMatrix().setTranslation(v, kWorld)\<close> followed by \<open>asMatrix()\<close>, and
  \<open>MTransformationMatrix(m).getTranslation(kWorld)\<close>.
\<close>

definition translationMatrix :: "MVector \<Rightarrow> MMatrix" where
  "translationMatrix v =
     [[1, 0, 0, 0], [0, 1, 0, 0], [0, 0, 1, 0], [vec_x v, vec_y v, vec_z v, 1]]"

definition getTranslation :: "MMatrix \<Rightarrow> MVector" where
  "getTranslation m = MVector (m ! 3 ! 0) (m ! 3 ! 1) (m ! 3 ! 2)"

definition pointCheckUpAxis :: "host \<Rightarrow> MVector \<Rightarrow> MVector" where
  "pointCheckUpAxis h point =
     (let pointM = translationMatrix (MVector (vec_x point) (vec_y point) (vec_z point));
          pointM = checkUpAxis h pointM
      in getTranslation pointM)"

text \<open>The screen window of \<open>InsertCommon\<close>, a list of four bounds.\<close>

definition screenwindow :: "real \<Rightarrow> real \<Rightarrow> real \<Rightarrow> real \<Rightarrow> real \<Rightarrow> real list" where
  "screenwindow shiftX shiftY ratio invRatio sc =
     (if ratio > 1
      then [((2 * shiftX) - 1) * sc,
            ((2 * shiftX) + 1) * sc,
            ((2 * shiftY) - invRatio) * sc,
            ((2 * shiftY) + invRatio) * sc]
      else [((2 * shiftX) - ratio) * sc,
            ((2 * shiftX) + ratio) * sc,
            ((2 * shiftY) - 1) * sc,
            ((2 * shiftY) + 1) * sc])"

text \<open>
  The lens radius of \<open>InsertCommon\<close>: computed and never written out, but its two
  divisions are evaluated.
\<close>

definition lens_radius :: "host \<Rightarrow> Camera \<Rightarrow> exn + real" where
  "lens_radius h s =
     (if camera_infinite_focus h = 0
      then (case py_div (focalLength h) (real_of_int (DOF_CONST s)) of
              Inl e \<Rightarrow> Inl e
            | Inr focal_length \<Rightarrow> py_div focal_length (2 * fStop h))
      else Inr 0)"

definition screenwindow_line :: "real list \<Rightarrow> line" where
  "screenwindow_line w =
     Fmt (TAB # ''scene.camera.screenwindow = %f %f %f %f'')
         [PyFloat (w ! 0), PyFloat (w ! 1), PyFloat (w ! 2), PyFloat (w ! 3)]"

definition shutteropen_line :: line where
  "shutteropen_line = Fmt (TAB # ''scene.camera.shutteropen = %f'') [PyFloat 0]"

definition shutterclose_line :: "real \<Rightarrow> line" where
  "shutterclose_line t = Fmt (TAB # ''scene.camera.shutterclose = %f'') [PyFloat t]"

text \<open>
  \<open>InsertCommon\<close>. The result is the exception raised, if any, and the object as the
  call leaves it.
\<close>

definition InsertCommon :: "host \<Rightarrow> Camera \<Rightarrow> exn option \<times> Camera" where
  "InsertCommon h s =
     (case lens_radius h s of
        Inl e \<Rightarrow> (Some e, s)
      | Inr lr \<Rightarrow>
         (let shiftX = filmTranslateH h;
              shiftY = filmTranslateV h
          in case py_div (real_of_int (outWidth s)) (real_of_int (outHeight s)) of
               Inl e \<Rightarrow> (Some e, s)
             | Inr ratio \<Rightarrow>
                (case py_div 1 ratio of
                   Inl e \<Rightarrow> (Some e, s)
                 | Inr invRatio \<Rightarrow>
                    (let w = screenwindow shiftX shiftY ratio invRatio (scale s);
                         s1 = addToOutput (screenwindow_line w) s;
                         s2 = addToOutput shutteropen_line s1;
                         exposure_time = camera_exposuretime h
                     in (None, addToOutput (shutterclose_line exposure_time) s2)))))"

text \<open>\<open>OpenMaya.MGlobal.displayError\<close>: the host's error display, a list of messages.\<close>

definition displayError :: "string \<Rightarrow> string list \<Rightarrow> string list" where
  "displayError msg shown = shown @ [msg]"

definition lookat_orig_line :: "MVector \<Rightarrow> line" where
  "lookat_orig_line eye =
     Fmt (TAB # ''scene.camera.lookat.orig = %f %f %f'')
         [PyFloat (vec_x eye), PyFloat (vec_y eye), PyFloat (vec_z eye)]"

definition lookat_target_line :: "MVector \<Rightarrow> line" where
  "lookat_target_line at' =
     Fmt (TAB # ''scene.camera.lookat.target = %f %f %f'')
         [PyFloat (vec_x at'), PyFloat (vec_y at'), PyFloat (vec_z at')]"

definition up_line :: "MVector \<Rightarrow> line" where
  "up_line up =
     Fmt (TAB # ''scene.camera.up = %f %f %f'')
         [PyFloat (vec_x up), PyFloat (vec_y up), PyFloat (vec_z up)]"

definition blank_line :: line where
  "blank_line = Fmt [] []"

text \<open>
  \<open>InsertLookat\<close>. The state is the object and the host's error display. Each query sits
  in its own \<open>try\<close>: on failure the message is displayed and the exception raised again.
\<close>

definition InsertLookat ::
  "host \<Rightarrow> Camera \<times> string list \<Rightarrow> exn option \<times> Camera \<times> string list" where
  "InsertLookat h w =
     (case w of (s, shown) \<Rightarrow>
      (case eyePoint h of
         Inl e \<Rightarrow> (Some e, s, displayError ''Failed to get camera.eyePoint\<newline>'' shown)
       | Inr eye \<Rightarrow>
      (case upDirection h of
         Inl e \<Rightarrow> (Some e, s, displayError ''Failed to get camera.upDirection\<newline>'' shown)
       | Inr up \<Rightarrow>
      (case centerOfInterestPoint h of
         Inl e \<Rightarrow>
           (Some e, s, displayError ''Failed to get camera.centerOfInterestPoint\<newline>'' shown)
       | Inr at' \<Rightarrow>
          (let eye = pointCheckUpAxis h eye;
               at' = pointCheckUpAxis h at';
               up = pointCheckUpAxis h up;
               s1 = addToOutput (lookat_orig_line eye) s;
               s2 = addToOutput (lookat_target_line at') s1;
               s3 = addToOutput (up_line up) s2
           in (None, addToOutput blank_line s3, shown))))))"

definition type_line :: "string \<Rightarrow> line" where
  "type_line t = Fmt (TAB # ''scene.camera.type = '' @ t) []"

text \<open>\<open>InsertEnvironment\<close>.\<close>

definition InsertEnvironment :: "host \<Rightarrow> Camera \<Rightarrow> exn option \<times> Camera" where
  "InsertEnvironment h s = InsertCommon h (addToOutput (type_line ''environment'') s)"

definition specfile_line :: line where
  "specfile_line =
     Fmt (TAB # DQ # ''string specfile'' @ DQ # '' ['' @ DQ # ''%s'' @ DQ # '']'')
         [PyStr ''E:/dev/luxrender/lux/cameras/realistic/wide.22mm.dat'']"

definition filmdistance_line :: "real \<Rightarrow> line" where
  "filmdistance_line v = Fmt (TAB # DQ # ''float filmdistance'' @ DQ # '' [%f]'') [PyFloat v]"

definition aperture_diameter_line :: "real \<Rightarrow> line" where
  "aperture_diameter_line v =
     Fmt (TAB # DQ # ''float aperture_diameter'' @ DQ # '' [%f]'') [PyFloat v]"

definition filmdiag_line :: "real \<Rightarrow> line" where
  "filmdiag_line v = Fmt (TAB # DQ # ''float filmdiag'' @ DQ # '' [%f]'') [PyFloat v]"

text \<open>
  The field of view that \<open>InsertRealistic\<close> and \<open>InsertPerspective\<close> both compute.
\<close>

definition cFOV :: "host \<Rightarrow> Camera \<Rightarrow> real" where
  "cFOV h s =
     (if outHeight s < outWidth s
      then math_degrees (horizontalFieldOfView h)
      else math_degrees (verticalFieldOfView h))"

text \<open>
  \<open>InsertRealistic\<close>. All arithmetic comes before the first line is written, so an
  exception there leaves the buffer as it was.
\<close>

definition InsertRealistic :: "host \<Rightarrow> Camera \<Rightarrow> exn option \<times> Camera" where
  "InsertRealistic h s =
     (let fov = cFOV h s in
      case math_sqrt (horizontalFilmAperture h * verticalFilmAperture h) of
        Inl e \<Rightarrow> (Some e, s)
      | Inr filmdiag \<Rightarrow>
     (let fstop = fStop h;
          dofdist = centerOfInterest h
      in case py_div (focalLength h) (real_of_int (DOF_CONST s)) of
        Inl e \<Rightarrow> (Some e, s)
      | Inr focal \<Rightarrow>
     (case py_div focal fstop of
        Inl e \<Rightarrow> (Some e, s)
      | Inr aperture_diameter \<Rightarrow>
     (case py_div (dofdist * focal) (dofdist - focal) of
        Inl e \<Rightarrow> (Some e, s)
      | Inr filmdistance \<Rightarrow>
         (let s1 = addToOutput (type_line ''realistic'') s;
              s2 = addToOutput specfile_line s1;
              s3 = addToOutput (filmdistance_line filmdistance) s2;
              s4 = addToOutput (aperture_diameter_line aperture_diameter) s3;
              s5 = addToOutput (filmdiag_line filmdiag) s4
          in InsertCommon h s5)))))"

definition autofocus_line :: "string \<Rightarrow> line" where
  "autofocus_line b = Fmt (TAB # ''scene.camera.autofocus.enable = %s'') [PyStr b]"

definition fieldofview_line :: "real \<Rightarrow> line" where
  "fieldofview_line a = Fmt (TAB # ''scene.camera.fieldofview = %f'') [PyFloat a]"

text \<open>\<open>InsertPerspective\<close>.\<close>

definition InsertPerspective :: "host \<Rightarrow> Camera \<Rightarrow> exn option \<times> Camera" where
  "InsertPerspective h s =
     (let s1 = addToOutput (type_line ''perspective'') s;
          fov = cFOV h s1;
          auto_focus = intToBoolString h (camera_autofocus h);
          s2 = addToOutput (autofocus_line auto_focus) s1;
          s3 = addToOutput (fieldofview_line fov) s2
      in InsertCommon h s3)"

text \<open>\<open>InsertOrtho\<close>.\<close>

definition InsertOrtho :: "host \<Rightarrow> Camera \<Rightarrow> exn option \<times> Camera" where
  "InsertOrtho h s =
     (let s1 = s\<lparr>scale := orthoWidth h / 2\<rparr>;
          s2 = addToOutput (type_line ''orthographic'') s1
      in InsertCommon h s2)"

definition camera_marker :: line where
  "camera_marker = Fmt ''#Camera'' []"

text \<open>The type dispatch of \<open>getOutput\<close>, everything before the call of \<open>InsertLookat\<close>.\<close>

definition insertByType :: "host \<Rightarrow> Camera \<Rightarrow> exn option \<times> Camera" where
  "insertByType h s =
     (if isOrtho h then InsertOrtho h s
      else (let ptype = camera_persptype h;
                s1 = addToOutput camera_marker s
            in if ptype = ''Perspective'' then InsertPerspective h s1
               else if ptype = ''Environment'' then InsertEnvironment h s1
               else InsertRealistic h s1))"

text \<open>\<open>getOutput\<close>: an exception of the type block ends the call before the look-at.\<close>

definition getOutput ::
  "host \<Rightarrow> Camera \<times> string list \<Rightarrow> exn option \<times> Camera \<times> string list" where
  "getOutput h w =
     (case w of (s, shown) \<Rightarrow>
      (case insertByType h s of
         (Some e, s') \<Rightarrow> (Some e, s', shown)
       | (None, s') \<Rightarrow> InsertLookat h (s', shown)))"

section \<open>Vocabulary for the properties\<close>

text \<open>The lines the type dispatch appends, and the lines a whole export call appends.\<close>

definition type_block :: "host \<Rightarrow> Camera \<Rightarrow> line list" where
  "type_block h s = drop (length (moduleOutput s)) (moduleOutput (snd (insertByType h s)))"

definition emitted :: "host \<Rightarrow> Camera \<Rightarrow> string list \<Rightarrow> line list" where
  "emitted h s shown =
     drop (length (moduleOutput s)) (moduleOutput (fst (snd (getOutput h (s, shown)))))"

text \<open>The look-at block as the spec describes it: origin, target, up, then a blank line.\<close>

definition lookat_block :: "host \<Rightarrow> MVector \<Rightarrow> MVector \<Rightarrow> MVector \<Rightarrow> line list" where
  "lookat_block h eye at' up =
     [lookat_orig_line (pointCheckUpAxis h eye),
      lookat_target_line (pointCheckUpAxis h at'),
      up_line (pointCheckUpAxis h up),
      blank_line]"

text \<open>The lines the look-at appends: the block when all three queries succeed, none otherwise.\<close>

definition lookat_lines :: "host \<Rightarrow> line list" where
  "lookat_lines h =
     (case eyePoint h of
        Inl e \<Rightarrow> []
      | Inr eye \<Rightarrow>
         (case upDirection h of
            Inl e \<Rightarrow> []
          | Inr up \<Rightarrow>
             (case centerOfInterestPoint h of
                Inl e \<Rightarrow> []
              | Inr at' \<Rightarrow> lookat_block h eye at' up)))"

text \<open>
  The key of a line: for an assignment \<open>key = value\<close> the text before the first blank,
  for a parameter in the quoted form the text between the quotes. A blank line and a
  comment line have none.
\<close>

definition line_key :: "line \<Rightarrow> string option" where
  "line_key l =
     (case l of Fmt f args \<Rightarrow>
        (let t = dropWhile (\<lambda>c. c = TAB) f
         in if t = [] then None
            else if hd t = CHR ''#'' then None
            else if hd t = DQ then Some (takeWhile (\<lambda>c. c \<noteq> DQ) (tl t))
            else Some (takeWhile (\<lambda>c. c \<noteq> CHR '' '') t)))"

text \<open>The number of floats a line carries.\<close>

definition float_count :: "line \<Rightarrow> nat" where
  "float_count l =
     (case l of Fmt f args \<Rightarrow>
        length (filter (\<lambda>v. case v of PyFloat r \<Rightarrow> True | PyStr t \<Rightarrow> False) args))"

text \<open>The keys the spec lists as the exact set of emitted keys.\<close>

definition spec_keys :: "string list" where
  "spec_keys =
     [''scene.camera.type'', ''scene.camera.screenwindow'', ''scene.camera.shutteropen'',
      ''scene.camera.shutterclose'', ''scene.camera.autofocus.enable'',
      ''scene.camera.fieldofview'', ''scene.camera.lookat.orig'',
      ''scene.camera.lookat.target'', ''scene.camera.up'']"

text \<open>The parameters of the realistic block, written in the quoted form.\<close>

definition realistic_keys :: "string list" where
  "realistic_keys =
     [''string specfile'', ''float filmdistance'', ''float aperture_diameter'',
      ''float filmdiag'']"

definition lookat_keys :: "string list" where
  "lookat_keys =
     [''scene.camera.lookat.orig'', ''scene.camera.lookat.target'', ''scene.camera.up'']"

definition is_lookat_line :: "line \<Rightarrow> bool" where
  "is_lookat_line l = (case line_key l of None \<Rightarrow> False | Some k \<Rightarrow> k \<in> set lookat_keys)"



text \<open>
  What holds of every line an export call appends: a line without a key is the marker
  or the blank line; a key is one of the spec's, or one of the realistic block's for a
  realistic camera; the autofocus and field-of-view keys belong to a perspective camera;
  the screen window carries four floats.
\<close>

definition key_ok :: "bool \<Rightarrow> bool \<Rightarrow> line \<Rightarrow> bool" where
  "key_ok persp realistic l =
     (case line_key l of
        None \<Rightarrow> l = camera_marker \<or> l = blank_line
      | Some k \<Rightarrow>
          (k \<in> set spec_keys \<or> (realistic \<and> k \<in> set realistic_keys))
          \<and> (k = ''scene.camera.autofocus.enable'' \<or> k = ''scene.camera.fieldofview''
               \<longrightarrow> persp)
          \<and> (k = ''scene.camera.screenwindow'' \<longrightarrow> float_count l = 4))"

text \<open>The camera kinds of the dispatch.\<close>

definition is_perspective :: "host \<Rightarrow> bool" where
  "is_perspective h = (\<not> isOrtho h \<and> camera_persptype h = ''Perspective'')"

definition is_realistic :: "host \<Rightarrow> bool" where
  "is_realistic h =
     (\<not> isOrtho h \<and> camera_persptype h \<noteq> ''Perspective''
      \<and> camera_persptype h \<noteq> ''Environment'')"

text \<open>
  When the arithmetic of the common block raises: a zero f-stop (or a zero
  \<open>DOF_CONST\<close>) unless \<open>camera_infinite_focus\<close> is set, a zero output height, a zero
  output width.
\<close>

definition common_fails :: "host \<Rightarrow> Camera \<Rightarrow> bool" where
  "common_fails h s =
     ((camera_infinite_focus h = 0 \<and> (DOF_CONST s = 0 \<or> fStop h = 0))
      \<or> outHeight s = 0 \<or> outWidth s = 0)"

definition ratio_of :: "Camera \<Rightarrow> real" where
  "ratio_of s = real_of_int (outWidth s) / real_of_int (outHeight s)"

definition common_lines :: "host \<Rightarrow> Camera \<Rightarrow> line list" where
  "common_lines h s =
     [screenwindow_line
        (screenwindow (filmTranslateH h) (filmTranslateV h) (ratio_of s) (1 / ratio_of s)
           (scale s)),
      shutteropen_line,
      shutterclose_line (camera_exposuretime h)]"

text \<open>When the arithmetic of the realistic block raises.\<close>

definition realistic_fails :: "host \<Rightarrow> Camera \<Rightarrow> bool" where
  "realistic_fails h s =
     (horizontalFilmAperture h * verticalFilmAperture h < 0
      \<or> DOF_CONST s = 0 \<or> fStop h = 0
      \<or> centerOfInterest h = focalLength h / real_of_int (DOF_CONST s))"

definition type_fails :: "host \<Rightarrow> Camera \<Rightarrow> bool" where
  "type_fails h s = (common_fails h s \<or> (is_realistic h \<and> realistic_fails h s))"



section \<open>Example scenes\<close>

definition example_intToBoolString :: "int \<Rightarrow> string" where
  "example_intToBoolString i = (if i = 0 then ''false'' else ''true'')"

definition example_remap :: "MMatrix \<Rightarrow> MMatrix" where
  "example_remap m = map (\<lambda>r. [r ! 0, - (r ! 2), r ! 1, r ! 3]) m"

text \<open>A perspective camera in a Z-up scene; the other examples change single fields.\<close>

definition example_host :: host where
  "example_host =
     \<lparr> isOrtho = False, focalLength = 35, fStop = 4, filmTranslateH = 0,
       filmTranslateV = 0, orthoWidth = 10, horizontalFieldOfView = 1,
       verticalFieldOfView = 1 / 2, horizontalFilmAperture = 4, verticalFilmAperture = 1,
       centerOfInterest = 5, eyePoint = Inr (MVector 1 2 3),
       upDirection = Inr (MVector 0 0 1), centerOfInterestPoint = Inr (MVector 4 5 6),
       camera_persptype = ''Perspective'', camera_infinite_focus = 0,
       camera_exposuretime = 1, camera_autofocus = 1, isYAxisUp = False,
       upAxisRemap = example_remap, intToBoolString = example_intToBoolString,
       getSceneScaleFactor = 1 \<rparr>"

definition ortho_host :: host where
  "ortho_host = example_host\<lparr>isOrtho := True\<rparr>"

definition realistic_host :: host where
  "realistic_host = example_host\<lparr>camera_persptype := ''Realistic''\<rparr>"

definition environment_host :: host where
  "environment_host = example_host\<lparr>camera_persptype := ''Environment''\<rparr>"

section \<open>The blocks in closed form\<close>

lemma InsertCommon_eq:
  "InsertCommon h s =
     (if common_fails h s then (Some ZeroDivisionError, s)
      else (None, s\<lparr>moduleOutput := moduleOutput s @ common_lines h s\<rparr>))"
  by (simp add: InsertCommon_def lens_radius_def py_div_def common_fails_def common_lines_def
      addToOutput_def ratio_of_def Let_def)

lemma common_fails_upd [simp]:
  "common_fails h (s\<lparr>moduleOutput := b\<rparr>) = common_fails h s"
  "common_fails h (s\<lparr>scale := c\<rparr>) = common_fails h s"
  by (simp_all add: common_fails_def)

lemma common_lines_upd [simp]:
  "common_lines h (s\<lparr>moduleOutput := b\<rparr>) = common_lines h s"
  by (simp add: common_lines_def ratio_of_def)

lemma insertByType_ortho:
  "isOrtho h \<Longrightarrow> insertByType h s =
     (if common_fails h s
      then (Some ZeroDivisionError,
            s\<lparr>scale := orthoWidth h / 2,
              moduleOutput := moduleOutput s @ [type_line ''orthographic'']\<rparr>)
      else (None,
            s\<lparr>scale := orthoWidth h / 2,
              moduleOutput := moduleOutput s @ type_line ''orthographic''
                 # common_lines h (s\<lparr>scale := orthoWidth h / 2\<rparr>)\<rparr>))"
  by (simp add: insertByType_def InsertOrtho_def InsertCommon_eq addToOutput_def Let_def)

lemma insertByType_perspective:
  "is_perspective h \<Longrightarrow> insertByType h s =
     (if common_fails h s
      then (Some ZeroDivisionError,
            s\<lparr>moduleOutput := moduleOutput s @
                [camera_marker, type_line ''perspective'',
                 autofocus_line (intToBoolString h (camera_autofocus h)),
                 fieldofview_line (cFOV h s)]\<rparr>)
      else (None,
            s\<lparr>moduleOutput := moduleOutput s @
                [camera_marker, type_line ''perspective'',
                 autofocus_line (intToBoolString h (camera_autofocus h)),
                 fieldofview_line (cFOV h s)] @ common_lines h s\<rparr>))"
  by (simp add: is_perspective_def insertByType_def InsertPerspective_def InsertCommon_eq
      addToOutput_def Let_def cFOV_def)

lemma insertByType_environment:
  "\<not> isOrtho h \<Longrightarrow> camera_persptype h = ''Environment'' \<Longrightarrow> insertByType h s =
     (if common_fails h s
      then (Some ZeroDivisionError,
            s\<lparr>moduleOutput := moduleOutput s @ [camera_marker, type_line ''environment'']\<rparr>)
      else (None,
            s\<lparr>moduleOutput := moduleOutput s @
                [camera_marker, type_line ''environment''] @ common_lines h s\<rparr>))"
  by (simp add: insertByType_def InsertEnvironment_def InsertCommon_eq addToOutput_def Let_def)

lemma realistic_exn:
  "is_realistic h \<Longrightarrow> realistic_fails h s \<Longrightarrow>
     insertByType h s =
       (Some (if horizontalFilmAperture h * verticalFilmAperture h < 0 then ValueError
              else ZeroDivisionError),
        s\<lparr>moduleOutput := moduleOutput s @ [camera_marker]\<rparr>)"
  by (auto simp add: is_realistic_def realistic_fails_def insertByType_def InsertRealistic_def
      math_sqrt_def py_div_def addToOutput_def Let_def)

lemma insertByType_realistic:
  "is_realistic h \<Longrightarrow> \<not> realistic_fails h s \<Longrightarrow> insertByType h s =
     (if common_fails h s
      then (Some ZeroDivisionError,
            s\<lparr>moduleOutput := moduleOutput s @
                [camera_marker, type_line ''realistic'', specfile_line,
                 filmdistance_line
                   (centerOfInterest h * (focalLength h / real_of_int (DOF_CONST s))
                    / (centerOfInterest h - focalLength h / real_of_int (DOF_CONST s))),
                 aperture_diameter_line (focalLength h / real_of_int (DOF_CONST s) / fStop h),
                 filmdiag_line (sqrt (horizontalFilmAperture h * verticalFilmAperture h))]\<rparr>)
      else (None,
            s\<lparr>moduleOutput := moduleOutput s @
                [camera_marker, type_line ''realistic'', specfile_line,
                 filmdistance_line
                   (centerOfInterest h * (focalLength h / real_of_int (DOF_CONST s))
                    / (centerOfInterest h - focalLength h / real_of_int (DOF_CONST s))),
                 aperture_diameter_line (focalLength h / real_of_int (DOF_CONST s) / fStop h),
                 filmdiag_line (sqrt (horizontalFilmAperture h * verticalFilmAperture h))]
                @ common_lines h s\<rparr>))"
  by (simp add: is_realistic_def realistic_fails_def insertByType_def InsertRealistic_def
      math_sqrt_def py_div_def InsertCommon_eq addToOutput_def Let_def)


lemma host_kinds:
  "isOrtho h \<or> is_perspective h \<or> (\<not> isOrtho h \<and> camera_persptype h = ''Environment'')
   \<or> is_realistic h"
  by (auto simp add: is_perspective_def is_realistic_def)

lemma line_key_simps:
  "line_key (type_line t) = Some ''scene.camera.type''"
  "line_key (screenwindow_line w) = Some ''scene.camera.screenwindow''"
  "line_key shutteropen_line = Some ''scene.camera.shutteropen''"
  "line_key (shutterclose_line x) = Some ''scene.camera.shutterclose''"
  "line_key (autofocus_line b) = Some ''scene.camera.autofocus.enable''"
  "line_key (fieldofview_line x) = Some ''scene.camera.fieldofview''"
  "line_key (lookat_orig_line v) = Some ''scene.camera.lookat.orig''"
  "line_key (lookat_target_line v) = Some ''scene.camera.lookat.target''"
  "line_key (up_line v) = Some ''scene.camera.up''"
  "line_key specfile_line = Some ''string specfile''"
  "line_key (filmdistance_line x) = Some ''float filmdistance''"
  "line_key (aperture_diameter_line x) = Some ''float aperture_diameter''"
  "line_key (filmdiag_line x) = Some ''float filmdiag''"
  "line_key camera_marker = None"
  "line_key blank_line = None"
  by (simp_all add: line_key_def type_line_def screenwindow_line_def shutteropen_line_def
      shutterclose_line_def autofocus_line_def fieldofview_line_def lookat_orig_line_def
      lookat_target_line_def up_line_def specfile_line_def filmdistance_line_def
      aperture_diameter_line_def filmdiag_line_def camera_marker_def blank_line_def
      TAB_def DQ_def)

lemma InsertLookat_ok:
  "eyePoint h = Inr eye \<Longrightarrow> upDirection h = Inr up \<Longrightarrow> centerOfInterestPoint h = Inr at' \<Longrightarrow>
   InsertLookat h (s, shown) =
     (None, s\<lparr>moduleOutput := moduleOutput s @ lookat_block h eye at' up\<rparr>, shown)"
  by (simp add: InsertLookat_def lookat_block_def addToOutput_def Let_def)

lemma InsertLookat_exn:
  "isl (eyePoint h) \<or> isl (upDirection h) \<or> isl (centerOfInterestPoint h) \<Longrightarrow>
   fst (InsertLookat h (s, shown)) \<noteq> None \<and> fst (snd (InsertLookat h (s, shown))) = s"
  by (auto simp add: InsertLookat_def isl_def split: sum.splits)

lemma insertByType_append:
  "moduleOutput (snd (insertByType h s)) = moduleOutput s @ type_block h s"
proof -
  consider "isOrtho h" | "is_perspective h"
    | "\<not> isOrtho h \<and> camera_persptype h = ''Environment''"
    | "is_realistic h \<and> realistic_fails h s" | "is_realistic h \<and> \<not> realistic_fails h s"
    using host_kinds [of h] by blast
  then show ?thesis
  proof cases
    case 1
    then show ?thesis by (simp add: type_block_def insertByType_ortho)
  next
    case 2
    then show ?thesis by (simp add: type_block_def insertByType_perspective)
  next
    case 3
    then show ?thesis by (simp add: type_block_def insertByType_environment)
  next
    case 4
    then show ?thesis by (simp add: type_block_def realistic_exn)
  next
    case 5
    then show ?thesis by (simp add: type_block_def insertByType_realistic)
  qed
qed

lemma insertByType_ok:
  "\<not> type_fails h s \<Longrightarrow> fst (insertByType h s) = None"
  using host_kinds [of h]
  by (auto simp add: type_fails_def insertByType_ortho insertByType_perspective
      insertByType_environment insertByType_realistic)

lemma insertByType_fails:
  assumes "type_fails h s"
  shows "fst (insertByType h s) \<noteq> None"
proof -
  consider "isOrtho h" | "is_perspective h"
    | "\<not> isOrtho h \<and> camera_persptype h = ''Environment''"
    | "is_realistic h \<and> realistic_fails h s" | "is_realistic h \<and> \<not> realistic_fails h s"
    using host_kinds [of h] by blast
  then show ?thesis
  proof cases
    case 1
    with assms show ?thesis
      by (simp add: type_fails_def is_realistic_def insertByType_ortho)
  next
    case 2
    with assms show ?thesis
      by (auto simp add: type_fails_def is_realistic_def is_perspective_def
          insertByType_perspective)
  next
    case 3
    with assms show ?thesis
      by (simp add: type_fails_def is_realistic_def insertByType_environment)
  next
    case 4
    then show ?thesis by (simp add: realistic_exn)
  next
    case 5
    with assms show ?thesis by (simp add: type_fails_def insertByType_realistic)
  qed
qed

lemma getOutput_type_exn:
  "fst (insertByType h s) \<noteq> None \<Longrightarrow>
   getOutput h (s, shown) = (fst (insertByType h s), snd (insertByType h s), shown)"
  by (cases "insertByType h s") (auto simp add: getOutput_def)

lemma getOutput_type_ok:
  "fst (insertByType h s) = None \<Longrightarrow>
   getOutput h (s, shown) = InsertLookat h (snd (insertByType h s), shown)"
  by (cases "insertByType h s") (auto simp add: getOutput_def)

lemma InsertLookat_append:
  "fst (snd (InsertLookat h (s, shown))) = s\<lparr>moduleOutput := moduleOutput s @ lookat_lines h\<rparr>"
  by (simp add: InsertLookat_def lookat_lines_def lookat_block_def addToOutput_def Let_def
      split: sum.splits)

lemma getOutput_append:
  "fst (snd (getOutput h (s, shown))) =
     (snd (insertByType h s))\<lparr>moduleOutput := moduleOutput s @ type_block h s @
        (if fst (insertByType h s) = None then lookat_lines h else [])\<rparr>"
proof (cases "fst (insertByType h s) = None")
  case True
  then show ?thesis
    by (simp add: getOutput_type_ok InsertLookat_append insertByType_append)
next
  case False
  have "(snd (insertByType h s))\<lparr>moduleOutput := moduleOutput s @ type_block h s\<rparr> =
      snd (insertByType h s)"
    by (simp add: insertByType_append [symmetric])
  with False show ?thesis
    by (auto simp add: getOutput_type_exn)
qed

lemma emitted_eq:
  "emitted h s shown =
     type_block h s @ (if fst (insertByType h s) = None then lookat_lines h else [])"
  by (simp add: emitted_def getOutput_append)

lemmas model_defs =
  emitted_def type_block_def getOutput_def insertByType_def InsertOrtho_def
  InsertPerspective_def InsertEnvironment_def InsertRealistic_def InsertCommon_def
  InsertLookat_def lens_radius_def py_div_def math_sqrt_def math_degrees_def cFOV_def
  screenwindow_def addToOutput_def displayError_def pointCheckUpAxis_def checkUpAxis_def
  translationMatrix_def getTranslation_def Camera_init_def Let_def

lemmas example_defs =
  example_host_def ortho_host_def realistic_host_def environment_host_def
  example_intToBoolString_def example_remap_def

section \<open>The common block\<close>




section \<open>Order of the output\<close>

lemmas line_defs =
  type_line_def screenwindow_line_def shutteropen_line_def shutterclose_line_def
  autofocus_line_def fieldofview_line_def lookat_orig_line_def lookat_target_line_def
  up_line_def specfile_line_def filmdistance_line_def aperture_diameter_line_def
  filmdiag_line_def camera_marker_def blank_line_def

lemma lookat_lines_ok:
  "eyePoint h = Inr eye \<Longrightarrow> upDirection h = Inr up \<Longrightarrow> centerOfInterestPoint h = Inr at' \<Longrightarrow>
   lookat_lines h = lookat_block h eye at' up"
  by (simp add: lookat_lines_def)

lemma type_block_no_lookat:
  "filter is_lookat_line (type_block h s) = []"
proof -
  consider "isOrtho h" | "is_perspective h"
    | "\<not> isOrtho h \<and> camera_persptype h = ''Environment''"
    | "is_realistic h \<and> realistic_fails h s" | "is_realistic h \<and> \<not> realistic_fails h s"
    using host_kinds [of h] by blast
  then show ?thesis
  proof cases
    case 1
    then show ?thesis
      by (simp add: type_block_def insertByType_ortho common_lines_def is_lookat_line_def
          line_key_simps lookat_keys_def)
  next
    case 2
    then show ?thesis
      by (simp add: type_block_def insertByType_perspective common_lines_def
          is_lookat_line_def line_key_simps lookat_keys_def)
  next
    case 3
    then show ?thesis
      by (simp add: type_block_def insertByType_environment common_lines_def
          is_lookat_line_def line_key_simps lookat_keys_def)
  next
    case 4
    then show ?thesis
      by (simp add: type_block_def realistic_exn is_lookat_line_def line_key_simps)
  next
    case 5
    then show ?thesis
      by (simp add: type_block_def insertByType_realistic common_lines_def
          is_lookat_line_def line_key_simps lookat_keys_def)
  qed
qed

text \<open>
  C2 (as amended). For every export call in which the arithmetic of the type block does
  not fail and the three world-space queries succeed, the call returns normally and the
  lines it appends are the type-specific block followed by the look-at block. The look-at
  block comes last, is emitted exactly once, and consists of three lines of three
  components (origin, target, up) followed by a blank line; the type-specific block holds
  no look-at line.
\<close>

theorem getOutput_order:
  assumes "\<not> type_fails h s"
    and "eyePoint h = Inr eye" and "upDirection h = Inr up"
    and "centerOfInterestPoint h = Inr at'"
  shows "fst (getOutput h (s, shown)) = None
    \<and> moduleOutput (fst (snd (getOutput h (s, shown)))) =
        moduleOutput s @ type_block h s @ lookat_block h eye at' up
    \<and> lookat_block h eye at' up =
        [lookat_orig_line (pointCheckUpAxis h eye), lookat_target_line (pointCheckUpAxis h at'),
         up_line (pointCheckUpAxis h up), blank_line]
    \<and> map float_count (lookat_block h eye at' up) = [3, 3, 3, 0]
    \<and> filter is_lookat_line (type_block h s) = []
    \<and> filter is_lookat_line (emitted h s shown) = take 3 (lookat_block h eye at' up)"
proof -
  have ok: "fst (insertByType h s) = None"
    using assms(1) by (rule insertByType_ok)
  have "getOutput h (s, shown) =
      (None, (snd (insertByType h s))\<lparr>moduleOutput :=
          moduleOutput (snd (insertByType h s)) @ lookat_block h eye at' up\<rparr>, shown)"
    using assms(2-4) by (simp add: getOutput_type_ok [OF ok] InsertLookat_ok)
  then have res: "fst (getOutput h (s, shown)) = None"
    and out: "moduleOutput (fst (snd (getOutput h (s, shown)))) =
        moduleOutput s @ type_block h s @ lookat_block h eye at' up"
    by (simp_all add: insertByType_append)
  have em: "emitted h s shown = type_block h s @ lookat_block h eye at' up"
    using ok assms(2-4) by (simp add: emitted_eq lookat_lines_ok)
  have cnt: "map float_count (lookat_block h eye at' up) = [3, 3, 3, 0]"
    by (simp add: lookat_block_def float_count_def line_defs)
  have flt: "filter is_lookat_line (lookat_block h eye at' up) =
      take 3 (lookat_block h eye at' up)"
    by (simp add: lookat_block_def is_lookat_line_def line_key_simps lookat_keys_def)
  show ?thesis
    using res out cnt flt em by (simp add: type_block_no_lookat lookat_block_def)
qed

text \<open>C2 for the perspective example at 1920x1080.\<close>

theorem getOutput_order_witness:
  "\<not> type_fails example_host (Camera_init example_host 1920 1080 [])
   \<and> eyePoint example_host = Inr (MVector 1 2 3)
   \<and> upDirection example_host = Inr (MVector 0 0 1)
   \<and> centerOfInterestPoint example_host = Inr (MVector 4 5 6)
   \<and> fst (getOutput example_host (Camera_init example_host 1920 1080 [], [])) = None
   \<and> moduleOutput (fst (snd (getOutput example_host (Camera_init example_host 1920 1080 [], []))))
      = type_block example_host (Camera_init example_host 1920 1080 []) @
        [lookat_orig_line (MVector 1 2 3), lookat_target_line (MVector 4 5 6),
         up_line (MVector 0 0 1), blank_line]
   \<and> type_block example_host (Camera_init example_host 1920 1080 []) =
        [camera_marker, type_line ''perspective'', autofocus_line ''true'',
         fieldofview_line (180 / pi),
         screenwindow_line [- 1, 1, - (9 / 16), 9 / 16], shutteropen_line,
         shutterclose_line 1]"
proof -
  have a: "\<not> type_fails example_host (Camera_init example_host 1920 1080 [])"
    by (simp add: type_fails_def common_fails_def is_realistic_def Camera_init_def example_defs)
  have b: "eyePoint example_host = Inr (MVector 1 2 3)"
    and c: "upDirection example_host = Inr (MVector 0 0 1)"
    and d: "centerOfInterestPoint example_host = Inr (MVector 4 5 6)"
    by (simp_all add: example_defs)
  have e: "type_block example_host (Camera_init example_host 1920 1080 []) =
        [camera_marker, type_line ''perspective'', autofocus_line ''true'',
         fieldofview_line (180 / pi),
         screenwindow_line [- 1, 1, - (9 / 16), 9 / 16], shutteropen_line,
         shutterclose_line 1]"
    by (simp add: model_defs example_defs line_defs)
  have f: "pointCheckUpAxis example_host p = p" for p
    by (simp add: model_defs example_defs)
  show ?thesis
    using a b c d e getOutput_order [OF a b c d, of "[]"]
    by (simp add: f Camera_init_def)
qed

text \<open>
  C2 as stated fails for a call whose eye-point query fails: the call raises and the
  look-at block is not emitted at all.
\<close>

theorem lookat_once_counterexample:
  "fst (getOutput (example_host\<lparr>eyePoint := Inl (RuntimeError ''kFailure'')\<rparr>)
          (Camera_init example_host 1920 1080 [], []))
     = Some (RuntimeError ''kFailure'')
   \<and> emitted (example_host\<lparr>eyePoint := Inl (RuntimeError ''kFailure'')\<rparr>)
        (Camera_init example_host 1920 1080 []) [] =
        [camera_marker, type_line ''perspective'', autofocus_line ''true'',
         fieldofview_line (180 / pi),
         screenwindow_line [- 1, 1, - (9 / 16), 9 / 16], shutteropen_line,
         shutterclose_line 1]
   \<and> filter is_lookat_line
        (emitted (example_host\<lparr>eyePoint := Inl (RuntimeError ''kFailure'')\<rparr>)
           (Camera_init example_host 1920 1080 []) []) = []"
proof -
  have "emitted (example_host\<lparr>eyePoint := Inl (RuntimeError ''kFailure'')\<rparr>)
        (Camera_init example_host 1920 1080 []) [] =
        [camera_marker, type_line ''perspective'', autofocus_line ''true'',
         fieldofview_line (180 / pi),
         screenwindow_line [- 1, 1, - (9 / 16), 9 / 16], shutteropen_line,
         shutterclose_line 1]"
    by (simp add: model_defs example_defs line_defs)
  moreover have "fst (getOutput (example_host\<lparr>eyePoint := Inl (RuntimeError ''kFailure'')\<rparr>)
          (Camera_init example_host 1920 1080 [], []))
     = Some (RuntimeError ''kFailure'')"
    by (simp add: model_defs example_defs)
  ultimately show ?thesis
    by (simp add: is_lookat_line_def line_key_simps lookat_keys_def)
qed

section \<open>The perspective and the orthographic block\<close>






section \<open>Failing look-at queries\<close>

text \<open>
  C5. When the arithmetic of the type block does not fail, the three queries are made in
  the order eye point, up direction, centre of interest. When one fails, the export
  displays the error message naming that query, raises the same exception again, and
  leaves the object as the type block left it: no look-at line is emitted. The three
  messages differ, so the failed query can be told from the message.
\<close>

theorem lookat_query_failure:
  assumes "\<not> type_fails h s"
  shows "(eyePoint h = Inl e \<longrightarrow>
      getOutput h (s, shown) =
        (Some e, snd (insertByType h s), shown @ [''Failed to get camera.eyePoint\<newline>'']))
   \<and> (eyePoint h = Inr eye \<and> upDirection h = Inl e \<longrightarrow>
      getOutput h (s, shown) =
        (Some e, snd (insertByType h s),
         shown @ [''Failed to get camera.upDirection\<newline>'']))
   \<and> (eyePoint h = Inr eye \<and> upDirection h = Inr up \<and> centerOfInterestPoint h = Inl e \<longrightarrow>
      getOutput h (s, shown) =
        (Some e, snd (insertByType h s),
         shown @ [''Failed to get camera.centerOfInterestPoint\<newline>'']))
   \<and> (isl (eyePoint h) \<or> isl (upDirection h) \<or> isl (centerOfInterestPoint h) \<longrightarrow>
      filter is_lookat_line (emitted h s shown) = [])
   \<and> distinct [''Failed to get camera.eyePoint\<newline>'',
        ''Failed to get camera.upDirection\<newline>'',
        ''Failed to get camera.centerOfInterestPoint\<newline>'']"
proof -
  have "lookat_lines h = []"
    if "isl (eyePoint h) \<or> isl (upDirection h) \<or> isl (centerOfInterestPoint h)"
    using that by (auto simp add: lookat_lines_def isl_def split: sum.splits)
  then have "filter is_lookat_line (emitted h s shown) = []"
    if "isl (eyePoint h) \<or> isl (upDirection h) \<or> isl (centerOfInterestPoint h)"
    using that by (simp add: emitted_eq type_block_no_lookat)
  moreover have ok: "fst (insertByType h s) = None"
    using assms by (rule insertByType_ok)
  ultimately show ?thesis
    by (simp add: getOutput_type_ok [OF ok] InsertLookat_def displayError_def)
qed

text \<open>C5 for a failure of each of the three queries in turn.\<close>

theorem lookat_query_failure_witness:
  "\<not> type_fails (example_host\<lparr>eyePoint := Inl (RuntimeError ''kFailure'')\<rparr>)
      (Camera_init example_host 1920 1080 [])
   \<and> getOutput (example_host\<lparr>eyePoint := Inl (RuntimeError ''kFailure'')\<rparr>)
      (Camera_init example_host 1920 1080 [], []) =
     (Some (RuntimeError ''kFailure''),
      Camera_init example_host 1920 1080
        [camera_marker, type_line ''perspective'', autofocus_line ''true'',
         fieldofview_line (180 / pi), screenwindow_line [- 1, 1, - (9 / 16), 9 / 16],
         shutteropen_line, shutterclose_line 1],
      [''Failed to get camera.eyePoint\<newline>''])
   \<and> getOutput (example_host\<lparr>upDirection := Inl (RuntimeError ''kFailure'')\<rparr>)
      (Camera_init example_host 1920 1080 [], []) =
     (Some (RuntimeError ''kFailure''),
      Camera_init example_host 1920 1080
        [camera_marker, type_line ''perspective'', autofocus_line ''true'',
         fieldofview_line (180 / pi), screenwindow_line [- 1, 1, - (9 / 16), 9 / 16],
         shutteropen_line, shutterclose_line 1],
      [''Failed to get camera.upDirection\<newline>''])
   \<and> getOutput (example_host\<lparr>centerOfInterestPoint := Inl (RuntimeError ''kFailure'')\<rparr>)
      (Camera_init example_host 1920 1080 [], []) =
     (Some (RuntimeError ''kFailure''),
      Camera_init example_host 1920 1080
        [camera_marker, type_line ''perspective'', autofocus_line ''true'',
         fieldofview_line (180 / pi), screenwindow_line [- 1, 1, - (9 / 16), 9 / 16],
         shutteropen_line, shutterclose_line 1],
      [''Failed to get camera.centerOfInterestPoint\<newline>''])"
proof -
  let ?e = "RuntimeError ''kFailure''"
  let ?s = "Camera_init example_host 1920 1080 []"
  let ?s' = "Camera_init example_host 1920 1080
        [camera_marker, type_line ''perspective'', autofocus_line ''true'',
         fieldofview_line (180 / pi), screenwindow_line [- 1, 1, - (9 / 16), 9 / 16],
         shutteropen_line, shutterclose_line 1]"
  have t1: "insertByType (example_host\<lparr>eyePoint := Inl ?e\<rparr>) ?s = (None, ?s')"
    and t2: "insertByType (example_host\<lparr>upDirection := Inl ?e\<rparr>) ?s = (None, ?s')"
    and t3: "insertByType (example_host\<lparr>centerOfInterestPoint := Inl ?e\<rparr>) ?s = (None, ?s')"
    by (simp_all add: model_defs example_defs line_defs)
  have o1: "\<not> type_fails (example_host\<lparr>eyePoint := Inl ?e\<rparr>) ?s"
    and o2: "\<not> type_fails (example_host\<lparr>upDirection := Inl ?e\<rparr>) ?s"
    and o3: "\<not> type_fails (example_host\<lparr>centerOfInterestPoint := Inl ?e\<rparr>) ?s"
    by (simp_all add: type_fails_def common_fails_def is_realistic_def Camera_init_def
        example_defs)
  have q: "eyePoint (example_host\<lparr>upDirection := Inl ?e\<rparr>) = Inr (MVector 1 2 3)"
    "eyePoint (example_host\<lparr>centerOfInterestPoint := Inl ?e\<rparr>) = Inr (MVector 1 2 3)"
    "upDirection (example_host\<lparr>centerOfInterestPoint := Inl ?e\<rparr>) = Inr (MVector 0 0 1)"
    by (simp_all add: example_host_def)
  show ?thesis
    using o1 lookat_query_failure [OF o1, of ?e "[]"]
      lookat_query_failure [OF o2, of ?e "[]" "MVector 1 2 3"]
      lookat_query_failure [OF o3, of ?e "[]" "MVector 1 2 3" "MVector 0 0 1"]
    by (simp add: t1 t2 t3 q)
qed

text \<open>
  C9. When the arithmetic of the type block does not fail and one of the three queries
  fails, the call raises and the buffer is exactly as the type block left it: the earlier
  content followed by every line of the type block. Nothing is rolled back.
\<close>

theorem lookat_failure_keeps_lines:
  assumes "\<not> type_fails h s"
    and "isl (eyePoint h) \<or> isl (upDirection h) \<or> isl (centerOfInterestPoint h)"
  shows "fst (getOutput h (s, shown)) \<noteq> None
    \<and> moduleOutput (fst (snd (getOutput h (s, shown)))) = moduleOutput (snd (insertByType h s))
    \<and> moduleOutput (snd (insertByType h s)) = moduleOutput s @ type_block h s
    \<and> emitted h s shown = type_block h s"
proof -
  have "lookat_lines h = []"
    using assms(2) by (auto simp add: lookat_lines_def isl_def split: sum.splits)
  moreover have ok: "fst (insertByType h s) = None"
    using assms(1) by (rule insertByType_ok)
  ultimately show ?thesis
    using assms(2) InsertLookat_exn [of h "snd (insertByType h s)" shown]
    by (simp add: getOutput_type_ok emitted_eq insertByType_append)
qed

text \<open>C9 for a failing centre-of-interest query, with a buffer that was not empty.\<close>

theorem lookat_failure_keeps_lines_witness:
  "\<not> type_fails (example_host\<lparr>centerOfInterestPoint := Inl (RuntimeError ''kFailure'')\<rparr>)
         (Camera_init example_host 1920 1080 [blank_line])
   \<and> isl (centerOfInterestPoint
            (example_host\<lparr>centerOfInterestPoint := Inl (RuntimeError ''kFailure'')\<rparr>))
   \<and> fst (getOutput (example_host\<lparr>centerOfInterestPoint := Inl (RuntimeError ''kFailure'')\<rparr>)
         (Camera_init example_host 1920 1080 [blank_line], [])) \<noteq> None
   \<and> moduleOutput (fst (snd
        (getOutput (example_host\<lparr>centerOfInterestPoint := Inl (RuntimeError ''kFailure'')\<rparr>)
           (Camera_init example_host 1920 1080 [blank_line], [])))) =
       [blank_line, camera_marker, type_line ''perspective'', autofocus_line ''true'',
        fieldofview_line (180 / pi), screenwindow_line [- 1, 1, - (9 / 16), 9 / 16],
        shutteropen_line, shutterclose_line 1]"
proof -
  have t: "moduleOutput (snd (insertByType
      (example_host\<lparr>centerOfInterestPoint := Inl (RuntimeError ''kFailure'')\<rparr>)
      (Camera_init example_host 1920 1080 [blank_line]))) =
       [blank_line, camera_marker, type_line ''perspective'', autofocus_line ''true'',
        fieldofview_line (180 / pi), screenwindow_line [- 1, 1, - (9 / 16), 9 / 16],
        shutteropen_line, shutterclose_line 1]"
    by (simp add: model_defs example_defs line_defs)
  have a: "\<not> type_fails
      (example_host\<lparr>centerOfInterestPoint := Inl (RuntimeError ''kFailure'')\<rparr>)
      (Camera_init example_host 1920 1080 [blank_line])"
    by (simp add: type_fails_def common_fails_def is_realistic_def Camera_init_def
        example_defs)
  have b: "isl (eyePoint (example_host\<lparr>centerOfInterestPoint := Inl (RuntimeError ''kFailure'')\<rparr>))
    \<or> isl (upDirection (example_host\<lparr>centerOfInterestPoint := Inl (RuntimeError ''kFailure'')\<rparr>))
    \<or> isl (centerOfInterestPoint
            (example_host\<lparr>centerOfInterestPoint := Inl (RuntimeError ''kFailure'')\<rparr>))"
    by simp
  show ?thesis
    using a lookat_failure_keeps_lines [OF a b, of "[]"]
    by (simp add: t)
qed

section \<open>The axis converter\<close>

text \<open>
  C8. The converter depends on the host only through the up-axis setting (and the fixed
  remapping), and for every point it returns the point unchanged when the scene is not
  Y-up, that is when the host's up axis already is the renderer's.
\<close>

theorem pointCheckUpAxis_identity:
  "(\<not> isYAxisUp h \<longrightarrow> pointCheckUpAxis h p = p)
   \<and> (isYAxisUp h = isYAxisUp h' \<and> upAxisRemap h = upAxisRemap h' \<longrightarrow>
        pointCheckUpAxis h p = pointCheckUpAxis h' p)"
proof -
  have "pointCheckUpAxis h p = p" if "\<not> isYAxisUp h"
    using that
    by (simp add: pointCheckUpAxis_def checkUpAxis_def translationMatrix_def
        getTranslation_def)
  moreover have "pointCheckUpAxis h p = pointCheckUpAxis h' p"
    if "isYAxisUp h = isYAxisUp h'" and "upAxisRemap h = upAxisRemap h'"
    using that by (auto simp add: pointCheckUpAxis_def checkUpAxis_def Let_def)
  ultimately show ?thesis by blast
qed

text \<open>C8 for the point (1, 2, 3).\<close>

theorem pointCheckUpAxis_identity_witness:
  "\<not> isYAxisUp example_host
   \<and> pointCheckUpAxis example_host (MVector 1 2 3) = MVector 1 2 3
   \<and> isYAxisUp (example_host\<lparr>isYAxisUp := True\<rparr>) = isYAxisUp (ortho_host\<lparr>isYAxisUp := True\<rparr>)
   \<and> upAxisRemap (example_host\<lparr>isYAxisUp := True\<rparr>) =
       upAxisRemap (ortho_host\<lparr>isYAxisUp := True\<rparr>)
   \<and> pointCheckUpAxis (example_host\<lparr>isYAxisUp := True\<rparr>) (MVector 1 2 3) =
       pointCheckUpAxis (ortho_host\<lparr>isYAxisUp := True\<rparr>) (MVector 1 2 3)"
proof -
  have a: "\<not> isYAxisUp example_host"
    by (simp add: example_defs)
  have b: "isYAxisUp (example_host\<lparr>isYAxisUp := True\<rparr>) =
      isYAxisUp (ortho_host\<lparr>isYAxisUp := True\<rparr>)
    \<and> upAxisRemap (example_host\<lparr>isYAxisUp := True\<rparr>) =
      upAxisRemap (ortho_host\<lparr>isYAxisUp := True\<rparr>)"
    by (simp add: example_defs)
  show ?thesis
    using a b pointCheckUpAxis_identity [of example_host "MVector 1 2 3"]
      pointCheckUpAxis_identity [of "example_host\<lparr>isYAxisUp := True\<rparr>" "MVector 1 2 3"
        "ortho_host\<lparr>isYAxisUp := True\<rparr>"]
    by blast
qed

section \<open>The emitted keys\<close>

lemma key_ok_lines:
  "key_ok p r (type_line t)"
  "key_ok p r (screenwindow_line w)"
  "key_ok p r shutteropen_line"
  "key_ok p r (shutterclose_line x)"
  "key_ok True r (autofocus_line b)"
  "key_ok True r (fieldofview_line x)"
  "key_ok p r (lookat_orig_line v)"
  "key_ok p r (lookat_target_line v)"
  "key_ok p r (up_line v)"
  "key_ok p True specfile_line"
  "key_ok p True (filmdistance_line x)"
  "key_ok p True (aperture_diameter_line x)"
  "key_ok p True (filmdiag_line x)"
  "key_ok p r camera_marker"
  "key_ok p r blank_line"
  by (simp_all add: key_ok_def line_key_simps spec_keys_def realistic_keys_def)
    (simp add: float_count_def screenwindow_line_def)

lemma type_block_key_ok:
  "\<forall>l\<in>set (type_block h s). key_ok (is_perspective h) (is_realistic h) l"
proof -
  consider "isOrtho h" | "is_perspective h"
    | "\<not> isOrtho h \<and> camera_persptype h = ''Environment''"
    | "is_realistic h \<and> realistic_fails h s" | "is_realistic h \<and> \<not> realistic_fails h s"
    using host_kinds [of h] by blast
  then show ?thesis
  proof cases
    case 1
    then show ?thesis
      by (simp add: type_block_def insertByType_ortho common_lines_def key_ok_lines)
  next
    case 2
    then show ?thesis
      by (simp add: type_block_def insertByType_perspective common_lines_def key_ok_lines)
  next
    case 3
    then show ?thesis
      by (simp add: type_block_def insertByType_environment common_lines_def key_ok_lines)
  next
    case 4
    then show ?thesis
      by (simp add: type_block_def realistic_exn key_ok_lines)
  next
    case 5
    then show ?thesis
      by (simp add: type_block_def insertByType_realistic common_lines_def key_ok_lines)
  qed
qed

lemma lookat_lines_key_ok:
  "\<forall>l\<in>set (lookat_lines h). key_ok p r l"
  by (auto simp add: lookat_lines_def lookat_block_def key_ok_lines split: sum.splits)

text \<open>
  C6 (as amended). For every export call, every emitted key belongs to the spec's set or,
  for a realistic camera only, to the four parameters of the realistic block written in
  the quoted form (specfile, filmdistance, aperture_diameter, filmdiag). The autofocus and
  field-of-view keys are emitted for a perspective camera only, and the screen window
  carries four floats. The lines without a key are the marker and the blank line.
\<close>

theorem emitted_keys:
  "\<forall>l\<in>set (emitted h s shown).
     (case line_key l of
        None \<Rightarrow> l = camera_marker \<or> l = blank_line
      | Some k \<Rightarrow>
          (k \<in> set spec_keys \<or> (is_realistic h \<and> k \<in> set realistic_keys))
          \<and> (k = ''scene.camera.autofocus.enable'' \<or> k = ''scene.camera.fieldofview''
               \<longrightarrow> is_perspective h)
          \<and> (k = ''scene.camera.screenwindow'' \<longrightarrow> float_count l = 4))"
proof
  fix l
  assume "l \<in> set (emitted h s shown)"
  then have "key_ok (is_perspective h) (is_realistic h) l"
    using type_block_key_ok [of h s] lookat_lines_key_ok [of h "is_perspective h" "is_realistic h"]
    by (auto simp add: emitted_eq split: if_splits)
  then show "case line_key l of
        None \<Rightarrow> l = camera_marker \<or> l = blank_line
      | Some k \<Rightarrow>
          (k \<in> set spec_keys \<or> (is_realistic h \<and> k \<in> set realistic_keys))
          \<and> (k = ''scene.camera.autofocus.enable'' \<or> k = ''scene.camera.fieldofview''
               \<longrightarrow> is_perspective h)
          \<and> (k = ''scene.camera.screenwindow'' \<longrightarrow> float_count l = 4)"
    by (simp add: key_ok_def)
qed

lemma emitted_realistic_host:
  "emitted realistic_host (Camera_init realistic_host 1920 1080 []) [] =
     [camera_marker, type_line ''realistic'', specfile_line, filmdistance_line (35 / 993),
      aperture_diameter_line (7 / 800), filmdiag_line 2,
      screenwindow_line [- 1, 1, - (9 / 16), 9 / 16], shutteropen_line, shutterclose_line 1,
      lookat_orig_line (MVector 1 2 3), lookat_target_line (MVector 4 5 6),
      up_line (MVector 0 0 1), blank_line]"
  by (simp add: model_defs example_defs line_defs)

lemma emitted_example_host:
  "emitted example_host (Camera_init example_host 1920 1080 []) [] =
     [camera_marker, type_line ''perspective'', autofocus_line ''true'',
      fieldofview_line (180 / pi), screenwindow_line [- 1, 1, - (9 / 16), 9 / 16],
      shutteropen_line, shutterclose_line 1,
      lookat_orig_line (MVector 1 2 3), lookat_target_line (MVector 4 5 6),
      up_line (MVector 0 0 1), blank_line]"
  by (simp add: model_defs example_defs line_defs)

text \<open>C6 for two lines of the perspective example.\<close>

theorem emitted_keys_witness:
  "screenwindow_line [- 1, 1, - (9 / 16), 9 / 16]
     \<in> set (emitted example_host (Camera_init example_host 1920 1080 []) [])
   \<and> line_key (screenwindow_line [- 1, 1, - (9 / 16), 9 / 16]) = Some ''scene.camera.screenwindow''
   \<and> ''scene.camera.screenwindow'' \<in> set spec_keys
   \<and> float_count (screenwindow_line [- 1, 1, - (9 / 16), 9 / 16]) = 4
   \<and> autofocus_line ''true''
     \<in> set (emitted example_host (Camera_init example_host 1920 1080 []) [])
   \<and> line_key (autofocus_line ''true'') = Some ''scene.camera.autofocus.enable''
   \<and> is_perspective example_host"
proof -
  have a: "screenwindow_line [- 1, 1, - (9 / 16), 9 / 16]
     \<in> set (emitted example_host (Camera_init example_host 1920 1080 []) [])"
    and b: "autofocus_line ''true''
     \<in> set (emitted example_host (Camera_init example_host 1920 1080 []) [])"
    by (simp_all add: emitted_example_host)
  show ?thesis
    using a b emitted_keys [of example_host "Camera_init example_host 1920 1080 []" "[]"]
    by (auto simp add: line_key_simps spec_keys_def)
qed

text \<open>
  C6 as stated fails: a successful export of a realistic camera emits the specfile
  parameter, whose key is not in the spec's set.
\<close>

theorem exact_keys_counterexample:
  "specfile_line \<in> set (emitted realistic_host (Camera_init realistic_host 1920 1080 []) [])
   \<and> line_key specfile_line = Some ''string specfile''
   \<and> ''string specfile'' \<notin> set spec_keys
   \<and> fst (getOutput realistic_host (Camera_init realistic_host 1920 1080 [], [])) = None"
proof -
  have "fst (getOutput realistic_host (Camera_init realistic_host 1920 1080 [], [])) = None"
    by (simp add: model_defs example_defs)
  then show ?thesis
    by (simp add: emitted_realistic_host line_key_simps spec_keys_def)
qed

section \<open>The realistic block\<close>






end
